theory Spec2Isabelle
  imports
    Main
    "HOL-Library.Char_ord"
    "HOL-Library.List_Lexorder"
    "HOL-Library.Option_ord"
    "HOL-Library.Multiset"
begin

section \<open>The to-do service of \<open>src/main.py\<close>\<close>

text \<open>
  The service keeps one table, \<open>items\<close>, and offers five operations on it over HTTP.
  The embedding follows the source function by function. What the source leaves to its
  libraries is written out where a handler depends on it:
  \<^item> the request schema \<open>ItemCreate\<close> (a required title, three defaulted fields and the
    priority validator) and the two pattern-checked query parameters;
  \<^item> the table, with the two constraints its declaration carries: \<open>id\<close> is the primary
    key and \<open>title\<close> is declared \<open>unique=True\<close>;
  \<^item> the statements a session sends: a filtered \<open>first()\<close>, an insert, an update and a
    delete at \<open>commit()\<close>, a \<open>refresh\<close>, and an ordered query with offset and limit.
  Python integers are unbounded, so identifiers, priorities, offsets and limits are
  \<^typ>\<open>int\<close>; the engine holds an integer in 64 bits, and an identifier, offset or
  limit that does not fit makes the query fail. Strings are \<^typ>\<open>string\<close>, compared
  byte by byte.
\<close>

subsection \<open>Errors\<close>

text \<open>
  Every way a request can fail is a value. \<open>HTTPException\<close> carries the status code and
  the detail the handler gives it; \<open>RequestValidationError\<close> is what the framework
  raises when a body or a query parameter is rejected (status 422). The others are not
  caught by any handler and surface as status 500.
\<close>

datatype error =
    HTTPException int string
  | RequestValidationError
  | ValueError string
  | IntegrityError
  | AttributeError
  | InvalidRequestError
  | OverflowError

fun status_code :: "error \<Rightarrow> int" where
  "status_code (HTTPException code detail) = code"
| "status_code RequestValidationError = 422"
| "status_code (ValueError msg) = 500"
| "status_code IntegrityError = 500"
| "status_code AttributeError = 500"
| "status_code InvalidRequestError = 500"
| "status_code OverflowError = 500"

subsection \<open>The data model\<close>

text \<open>
  \<open>ItemCreate\<close> is the validated payload; a row of the table (class \<open>Item\<close>, and the
  response schema \<open>ItemOut\<close>, which has the same five fields) is the payload's four
  fields and the primary key. The key's field is named \<open>item_id\<close>, since \<open>id\<close> is
  the identity function of HOL.
\<close>

record ItemCreate =
  title :: string
  description :: "string option"
  completed :: bool
  priority :: int

record Item = ItemCreate +
  item_id :: int

text \<open>
  A request body before validation, for bodies whose fields have the declared types: each
  field is present or absent.
\<close>

record body =
  body_title :: "string option"
  body_description :: "string option"
  body_completed :: "bool option"
  body_priority :: "int option"

subsection \<open>Validation of a body\<close>

definition validate_priority :: "int \<Rightarrow> error + int" where
  "validate_priority v =
     (if v \<notin> set [1, 2, 3]
      then Inl (ValueError ''Priority must be 1 (Low), 2 (Medium), or 3 (High)'')
      else Inr v)"

text \<open>
  Building an \<open>ItemCreate\<close> from a body: \<open>title\<close> has no default, so a body without
  it is rejected; \<open>description\<close> defaults to \<open>None\<close>, \<open>completed\<close> to \<open>False\<close>,
  \<open>priority\<close> to \<open>1\<close>; the validator runs on a priority that is present, and its
  \<open>ValueError\<close> becomes a validation error of the request.
\<close>

definition validate_ItemCreate :: "body \<Rightarrow> error + ItemCreate" where
  "validate_ItemCreate b =
     (case body_title b of
        None \<Rightarrow> Inl RequestValidationError
      | Some t \<Rightarrow>
          (case (case body_priority b of None \<Rightarrow> Inr 1 | Some p \<Rightarrow> validate_priority p) of
             Inl e \<Rightarrow> Inl RequestValidationError
           | Inr p \<Rightarrow>
               Inr \<lparr>title = t,
                    description = body_description b,
                    completed = (case body_completed b of None \<Rightarrow> False | Some c \<Rightarrow> c),
                    priority = p\<rparr>))"

subsection \<open>The database\<close>

text \<open>
  The state is the table, in insertion order, and the trace of the calls made on
  sessions so far: a request that never reaches the database leaves the trace as it was.
\<close>

datatype db_call = Query | Add | Commit | Refresh | Delete

record db =
  rows :: "Item list"
  trace :: "db_call list"

definition empty_db :: db where
  "empty_db = \<lparr>rows = [], trace = []\<rparr>"

definition called :: "db_call list \<Rightarrow> db \<Rightarrow> db" where
  "called cs s = s\<lparr>trace := trace s @ cs\<rparr>"

text \<open>\<open>db.query(Item).filter(P).first()\<close>: the first row that satisfies the filter.\<close>

definition query_first :: "(Item \<Rightarrow> bool) \<Rightarrow> db \<Rightarrow> Item option \<times> db" where
  "query_first P s = (find P (rows s), called [Query] s)"

text \<open>
  The key the engine gives a row inserted without one: one more than the largest key in
  the table, and \<open>1\<close> in an empty table.
\<close>

definition next_id :: "Item list \<Rightarrow> int" where
  "next_id rs = (if rs = [] then 1 else fold max (map item_id rs) (item_id (hd rs)) + 1)"

text \<open>
  \<open>Item(title=item.title, description=item.description, completed=item.completed,
  priority=item.priority)\<close>, as the row is stored once the engine has given it the key
  \<open>n\<close>.
\<close>

definition new_Item :: "ItemCreate \<Rightarrow> int \<Rightarrow> Item" where
  "new_Item item n =
     \<lparr>title = title item,
      description = description item,
      completed = completed item,
      priority = priority item,
      item_id = n\<rparr>"

text \<open>
  \<open>db.add(db_item); db.commit()\<close>: the insert. The unique index on \<open>title\<close> refuses a
  title that a row already has; nothing is written then.
\<close>

definition insert_commit :: "ItemCreate \<Rightarrow> db \<Rightarrow> (error + int) \<times> db" where
  "insert_commit item s =
     (let s' = called [Add, Commit] s in
      if title item \<in> set (map title (rows s)) then (Inl IntegrityError, s')
      else
        let n = next_id (rows s) in
        (Inr n, s'\<lparr>rows := rows s @ [new_Item item n]\<rparr>))"

text \<open>\<open>db.refresh(db_item)\<close>: the row is read again by its key.\<close>

definition refresh :: "int \<Rightarrow> db \<Rightarrow> (error + Item) \<times> db" where
  "refresh n s =
     (case find (\<lambda>r. item_id r = n) (rows s) of
        None \<Rightarrow> (Inl InvalidRequestError, called [Refresh] s)
      | Some r \<Rightarrow> (Inr r, called [Refresh] s))"

subsection \<open>Create and fetch\<close>

definition create_item :: "ItemCreate \<Rightarrow> db \<Rightarrow> (error + Item) \<times> db" where
  "create_item item s =
     (case query_first (\<lambda>r. title r = title item) s of
        (Some r, s1) \<Rightarrow> (Inl (HTTPException 400 ''Item with this title already exists''), s1)
      | (None, s1) \<Rightarrow>
          (case insert_commit item s1 of
             (Inl e, s2) \<Rightarrow> (Inl e, s2)
           | (Inr n, s2) \<Rightarrow> refresh n s2))"

text \<open>
  The engine stores an integer in 64 bits, signed. A Python integer outside that range
  cannot be bound to a statement: the driver raises \<open>OverflowError\<close>, which no handler
  catches.
\<close>

definition int64 :: "int \<Rightarrow> bool" where
  "int64 v = (- (2 ^ 63) \<le> v \<and> v < 2 ^ 63)"

text \<open>
  \<open>db.query(Item).filter(Item.id == item_id).first()\<close>: the identifier is bound to the
  statement, and the first row with that key is returned, if there is one. The keys of
  the table are integers that the engine stored, so an identifier that a row has can be
  bound; any other identifier can be bound when it is in the 64-bit range.
\<close>

definition first_by_id :: "int \<Rightarrow> db \<Rightarrow> (error + Item option) \<times> db" where
  "first_by_id i s =
     (if int64 i \<or> i \<in> set (map item_id (rows s))
      then (Inr (find (\<lambda>r. item_id r = i) (rows s)), called [Query] s)
      else (Inl OverflowError, called [Query] s))"

definition get_item :: "int \<Rightarrow> db \<Rightarrow> (error + Item) \<times> db" where
  "get_item i s =
     (case first_by_id i s of
        (Inl e, s1) \<Rightarrow> (Inl e, s1)
      | (Inr None, s1) \<Rightarrow> (Inl (HTTPException 404 ''Item not found''), s1)
      | (Inr (Some r), s1) \<Rightarrow> (Inr r, s1))"

subsection \<open>Update and delete\<close>

text \<open>The four assignments of \<open>update_item\<close> to the row it fetched.\<close>

definition assign :: "ItemCreate \<Rightarrow> Item \<Rightarrow> Item" where
  "assign item r =
     r\<lparr>title := title item,
       description := description item,
       completed := completed item,
       priority := priority item\<rparr>"

text \<open>
  The update that \<open>commit()\<close> sends after the assignments: the row with key \<open>n\<close> takes
  the payload's fields. The unique index on \<open>title\<close> refuses the new title when a
  different row has it; the session is then closed without a commit, and the table is as
  before.
\<close>

definition update_commit :: "int \<Rightarrow> ItemCreate \<Rightarrow> db \<Rightarrow> (error + unit) \<times> db" where
  "update_commit n item s =
     (let s' = called [Commit] s in
      if \<exists>r \<in> set (rows s). item_id r \<noteq> n \<and> title r = title item
      then (Inl IntegrityError, s')
      else
        (Inr (),
         s'\<lparr>rows := map (\<lambda>r. if item_id r = n then assign item r else r) (rows s)\<rparr>))"

definition update_item :: "int \<Rightarrow> ItemCreate \<Rightarrow> db \<Rightarrow> (error + Item) \<times> db" where
  "update_item i item s =
     (case first_by_id i s of
        (Inl e, s1) \<Rightarrow> (Inl e, s1)
      | (Inr None, s1) \<Rightarrow> (Inl (HTTPException 404 ''Item not found''), s1)
      | (Inr (Some r), s1) \<Rightarrow>
          (case update_commit (item_id r) item s1 of
             (Inl e, s2) \<Rightarrow> (Inl e, s2)
           | (Inr u, s2) \<Rightarrow> refresh (item_id r) s2))"

text \<open>\<open>db.delete(db_item); db.commit()\<close>: the row with key \<open>n\<close> is removed.\<close>

definition delete_commit :: "int \<Rightarrow> db \<Rightarrow> db" where
  "delete_commit n s =
     (called [Delete, Commit] s)\<lparr>rows := filter (\<lambda>r. item_id r \<noteq> n) (rows s)\<rparr>"

definition delete_item :: "int \<Rightarrow> db \<Rightarrow> (error + (string \<times> string) list) \<times> db" where
  "delete_item i s =
     (case first_by_id i s of
        (Inl e, s1) \<Rightarrow> (Inl e, s1)
      | (Inr None, s1) \<Rightarrow> (Inl (HTTPException 404 ''Item not found''), s1)
      | (Inr (Some r), s1) \<Rightarrow>
          (Inr [(''message'', ''Item deleted'')], delete_commit (item_id r) s1))"

subsection \<open>Listing\<close>

text \<open>
  \<open>getattr(Item, sort_by)\<close> gives a column for the five column names. Any other name
  makes the query fail; the model has one error for that. It is raised after
  \<open>db.query(Item)\<close> has been called.
\<close>

datatype column = Col_id | Col_title | Col_description | Col_completed | Col_priority

definition getattr_Item :: "string \<Rightarrow> column option" where
  "getattr_Item name =
     (if name = ''id'' then Some Col_id
      else if name = ''title'' then Some Col_title
      else if name = ''description'' then Some Col_description
      else if name = ''completed'' then Some Col_completed
      else if name = ''priority'' then Some Col_priority
      else None)"

text \<open>
  The order of a column: integers by value, strings byte by byte, \<open>False\<close> before
  \<open>True\<close>, and a missing description before every description.
\<close>

fun col_le :: "column \<Rightarrow> Item \<Rightarrow> Item \<Rightarrow> bool" where
  "col_le Col_id a b = (item_id a \<le> item_id b)"
| "col_le Col_title a b = (title a \<le> title b)"
| "col_le Col_description a b = (description a \<le> description b)"
| "col_le Col_completed a b = (completed a \<le> completed b)"
| "col_le Col_priority a b = (priority a \<le> priority b)"

definition asc :: "column \<Rightarrow> Item \<Rightarrow> Item \<Rightarrow> bool" where
  "asc c a b = col_le c a b"

definition desc :: "column \<Rightarrow> Item \<Rightarrow> Item \<Rightarrow> bool" where
  "desc c a b = col_le c b a"

text \<open>
  \<open>order_by\<close>: the rows in the order of the relation. SQL leaves the order of rows
  with equal keys to the engine; the model keeps them in table order (a stable insertion
  sort), and what is proved about a listing holds for every choice.
\<close>

fun insort_by :: "('a \<Rightarrow> 'a \<Rightarrow> bool) \<Rightarrow> 'a \<Rightarrow> 'a list \<Rightarrow> 'a list" where
  "insort_by le x [] = [x]"
| "insort_by le x (y # ys) = (if le x y then x # y # ys else y # insort_by le x ys)"

definition order_by :: "('a \<Rightarrow> 'a \<Rightarrow> bool) \<Rightarrow> 'a list \<Rightarrow> 'a list" where
  "order_by le xs = foldr (insort_by le) xs []"

text \<open>
  \<open>offset(skip).limit(limit)\<close>, as the engine reads the two numbers: a negative offset
  skips nothing, a negative limit is no limit. Both numbers are bound to the statement
  that \<open>all()\<close> sends, so both have to be in the 64-bit range.
\<close>

definition offset_limit :: "int \<Rightarrow> int \<Rightarrow> 'a list \<Rightarrow> 'a list" where
  "offset_limit skip limit xs =
     (let ys = drop (nat skip) xs in if limit < 0 then ys else take (nat limit) ys)"

definition get_items :: "int \<Rightarrow> int \<Rightarrow> string \<Rightarrow> string \<Rightarrow> db \<Rightarrow> (error + Item list) \<times> db" where
  "get_items skip limit sort_by sort_order s =
     (case (if sort_order = ''asc''
            then map_option asc (getattr_Item sort_by)
            else map_option desc (getattr_Item sort_by)) of
        None \<Rightarrow> (Inl AttributeError, called [Query] s)
      | Some le \<Rightarrow>
          if int64 skip \<and> int64 limit
          then (Inr (offset_limit skip limit (order_by le (rows s))), called [Query] s)
          else (Inl OverflowError, called [Query] s))"

subsection \<open>The routes\<close>

text \<open>
  A route validates what it received and then calls its handler. The query parameters of
  the listing, for values of the declared types: \<open>skip\<close> and \<open>limit\<close> are integers with
  defaults \<open>0\<close> and \<open>10\<close> and no constraint; \<open>sort_by\<close> and \<open>sort_order\<close> default to
  \<open>id\<close> and \<open>asc\<close> and must match their patterns.
\<close>

record list_query =
  q_skip :: "int option"
  q_limit :: "int option"
  q_sort_by :: "string option"
  q_sort_order :: "string option"

definition sort_by_pattern :: "string \<Rightarrow> bool" where
  "sort_by_pattern v = (v \<in> set [''id'', ''title'', ''completed'', ''priority''])"

definition sort_order_pattern :: "string \<Rightarrow> bool" where
  "sort_order_pattern v = (v \<in> set [''asc'', ''desc''])"

definition validate_list_query :: "list_query \<Rightarrow> error + (int \<times> int \<times> string \<times> string)" where
  "validate_list_query q =
     (let skip = (case q_skip q of None \<Rightarrow> 0 | Some v \<Rightarrow> v);
          limit = (case q_limit q of None \<Rightarrow> 10 | Some v \<Rightarrow> v);
          sort_by = (case q_sort_by q of None \<Rightarrow> ''id'' | Some v \<Rightarrow> v);
          sort_order = (case q_sort_order q of None \<Rightarrow> ''asc'' | Some v \<Rightarrow> v)
      in if sort_by_pattern sort_by \<and> sort_order_pattern sort_order
         then Inr (skip, limit, sort_by, sort_order)
         else Inl RequestValidationError)"

definition POST_items :: "body \<Rightarrow> db \<Rightarrow> (error + Item) \<times> db" where
  "POST_items b s =
     (case validate_ItemCreate b of
        Inl e \<Rightarrow> (Inl e, s)
      | Inr item \<Rightarrow> create_item item s)"

definition GET_items :: "list_query \<Rightarrow> db \<Rightarrow> (error + Item list) \<times> db" where
  "GET_items q s =
     (case validate_list_query q of
        Inl e \<Rightarrow> (Inl e, s)
      | Inr (skip, limit, sort_by, sort_order) \<Rightarrow> get_items skip limit sort_by sort_order s)"

definition PUT_item :: "int \<Rightarrow> body \<Rightarrow> db \<Rightarrow> (error + Item) \<times> db" where
  "PUT_item i b s =
     (case validate_ItemCreate b of
        Inl e \<Rightarrow> (Inl e, s)
      | Inr item \<Rightarrow> update_item i item s)"

text \<open>
  The service as a whole: the state after a request, and after a sequence of requests.
  The table is created empty at startup.
\<close>

datatype request =
    Post body
  | GetList list_query
  | Get int
  | Put int body
  | Del int

fun handle :: "request \<Rightarrow> db \<Rightarrow> db" where
  "handle (Post b) s = snd (POST_items b s)"
| "handle (GetList q) s = snd (GET_items q s)"
| "handle (Get i) s = snd (get_item i s)"
| "handle (Put i b) s = snd (PUT_item i b s)"
| "handle (Del i) s = snd (delete_item i s)"

definition run :: "request list \<Rightarrow> db \<Rightarrow> db" where
  "run reqs s = fold handle reqs s"

text \<open>What the table's declaration guarantees: keys are distinct, and so are titles.\<close>

definition table_ok :: "Item list \<Rightarrow> bool" where
  "table_ok rs = (distinct (map item_id rs) \<and> distinct (map title rs))"

section \<open>Facts about the handlers\<close>

lemma fold_max_ge_init: "(a::int) \<le> fold max xs a"
  by (induction xs arbitrary: a) (auto intro: order_trans [OF max.cobounded2])

lemma fold_max_ge_elem: "x \<in> set xs \<Longrightarrow> (x::int) \<le> fold max xs a"
proof (induction xs arbitrary: a)
  case Nil
  then show ?case by simp
next
  case (Cons y ys)
  show ?case
  proof (cases "x = y")
    case True
    have "y \<le> max y a" by simp
    also have "\<dots> \<le> fold max ys (max y a)" by (rule fold_max_ge_init)
    finally show ?thesis using True by simp
  next
    case False
    with Cons.prems have "x \<in> set ys" by simp
    then show ?thesis using Cons.IH by simp
  qed
qed

lemma next_id_fresh: "r \<in> set rs \<Longrightarrow> item_id r < next_id rs"
proof -
  assume r: "r \<in> set rs"
  then have ne: "rs \<noteq> []" by auto
  from r have "item_id r \<in> set (map item_id rs)" by simp
  then have "item_id r \<le> fold max (map item_id rs) (item_id (hd rs))"
    by (rule fold_max_ge_elem)
  with ne show ?thesis by (simp add: next_id_def)
qed

lemma find_fresh_append:
  "\<forall>r \<in> set rs. \<not> P r \<Longrightarrow> P x \<Longrightarrow> find P (rs @ [x]) = Some x"
  by (induction rs) auto

lemma find_key_item_id: "find (\<lambda>r. item_id r = i) rs = Some r \<Longrightarrow> item_id r = i \<and> r \<in> set rs"
  by (auto simp: find_Some_iff)

lemma find_map_keep:
  "(\<And>x. P (f x) = P x) \<Longrightarrow> find P (map f xs) = map_option f (find P xs)"
  by (induction xs) auto

lemma item_id_assign [simp]: "item_id (assign item r) = item_id r"
  by (simp add: assign_def)

lemma title_assign [simp]: "title (assign item r) = title item"
  by (simp add: assign_def)

lemma find_key_present: "i \<in> set (map item_id rs) \<Longrightarrow> \<exists>r. find (\<lambda>r. item_id r = i) rs = Some r"
  by (cases "find (\<lambda>r. item_id r = i) rs") (auto simp: find_None_iff)

lemma find_key_absent: "i \<notin> set (map item_id rs) \<Longrightarrow> find (\<lambda>r. item_id r = i) rs = None"
  by (force simp: find_None_iff)

lemma first_by_id_eq:
  "first_by_id i s =
     (case find (\<lambda>r. item_id r = i) (rows s) of
        None \<Rightarrow>
          if int64 i then (Inr None, called [Query] s) else (Inl OverflowError, called [Query] s)
      | Some r \<Rightarrow> (Inr (Some r), called [Query] s))"
proof (cases "find (\<lambda>r. item_id r = i) (rows s)")
  case None
  then have "i \<notin> set (map item_id (rows s))" by (auto simp: find_None_iff)
  with None show ?thesis by (simp add: first_by_id_def)
next
  case (Some r)
  then have "i \<in> set (map item_id (rows s))"
    using find_key_item_id [OF Some] by force
  with Some show ?thesis by (simp add: first_by_id_def)
qed

lemma get_item_eq:
  "get_item i s =
     (case find (\<lambda>r. item_id r = i) (rows s) of
        None \<Rightarrow>
          (Inl (if int64 i then HTTPException 404 ''Item not found'' else OverflowError),
           called [Query] s)
      | Some r \<Rightarrow> (Inr r, called [Query] s))"
  by (simp add: get_item_def first_by_id_eq split: option.splits)

lemma rows_called [simp]: "rows (called cs s) = rows s"
  by (simp add: called_def)

lemma trace_called [simp]: "trace (called cs s) = trace s @ cs"
  by (simp add: called_def)

lemma create_item_conflict:
  assumes "title item \<in> set (map title (rows s))"
  shows "create_item item s =
    (Inl (HTTPException 400 ''Item with this title already exists''), called [Query] s)"
proof -
  from assms have "find (\<lambda>r. title r = title item) (rows s) \<noteq> None"
    by (auto simp: find_None_iff)
  then show ?thesis
    by (auto simp: create_item_def query_first_def)
qed

lemma create_item_fresh:
  assumes "title item \<notin> set (map title (rows s))"
  shows "create_item item s =
    (Inr (new_Item item (next_id (rows s))),
     \<lparr>rows = rows s @ [new_Item item (next_id (rows s))],
      trace = trace s @ [Query, Add, Commit, Refresh]\<rparr>)"
proof -
  let ?r = "new_Item item (next_id (rows s))"
  from assms have f: "find (\<lambda>r. title r = title item) (rows s) = None"
    by (force simp: find_None_iff)
  have g: "find (\<lambda>r. item_id r = next_id (rows s)) (rows s @ [?r]) = Some ?r"
    by (rule find_fresh_append) (auto simp: new_Item_def dest: next_id_fresh)
  show ?thesis using assms
    by (simp add: create_item_def query_first_def f insert_commit_def called_def
        refresh_def Let_def g)
qed

lemma update_item_missing:
  assumes "find (\<lambda>r. item_id r = i) (rows s) = None"
  shows "update_item i item s =
    (Inl (if int64 i then HTTPException 404 ''Item not found'' else OverflowError),
     called [Query] s)"
  using assms by (simp add: update_item_def first_by_id_eq)

lemma update_item_duplicate:
  assumes "find (\<lambda>r. item_id r = i) (rows s) = Some r"
    and "\<exists>r' \<in> set (rows s). item_id r' \<noteq> i \<and> title r' = title item"
  shows "update_item i item s =
    (Inl IntegrityError, \<lparr>rows = rows s, trace = trace s @ [Query, Commit]\<rparr>)"
proof -
  from assms(1) have "item_id r = i" by (rule find_key_item_id [THEN conjunct1])
  with assms show ?thesis
    by (simp add: update_item_def first_by_id_eq update_commit_def called_def Let_def)
qed

lemma update_item_done:
  assumes "find (\<lambda>r. item_id r = i) (rows s) = Some r"
    and "\<not> (\<exists>r' \<in> set (rows s). item_id r' \<noteq> i \<and> title r' = title item)"
  shows "update_item i item s =
    (Inr (assign item r),
     \<lparr>rows = map (\<lambda>r. if item_id r = i then assign item r else r) (rows s),
      trace = trace s @ [Query, Commit, Refresh]\<rparr>)"
proof -
  let ?f = "\<lambda>r. if item_id r = i then assign item r else r"
  from assms(1) have i: "item_id r = i" by (rule find_key_item_id [THEN conjunct1])
  have "find (\<lambda>r. item_id r = i) (map ?f (rows s)) = map_option ?f (find (\<lambda>r. item_id r = i) (rows s))"
    by (rule find_map_keep) simp
  with assms(1) i have g: "find (\<lambda>r. item_id r = i) (map ?f (rows s)) = Some (assign item r)"
    by simp
  from assms i g show ?thesis
    by (simp add: update_item_def first_by_id_eq update_commit_def called_def Let_def
        refresh_def)
qed

lemma delete_item_missing:
  assumes "find (\<lambda>r. item_id r = i) (rows s) = None"
  shows "delete_item i s =
    (Inl (if int64 i then HTTPException 404 ''Item not found'' else OverflowError),
     called [Query] s)"
  using assms by (simp add: delete_item_def first_by_id_eq)

lemma delete_item_done:
  assumes "find (\<lambda>r. item_id r = i) (rows s) = Some r"
  shows "delete_item i s =
    (Inr [(''message'', ''Item deleted'')],
     \<lparr>rows = filter (\<lambda>r. item_id r \<noteq> i) (rows s),
      trace = trace s @ [Query, Delete, Commit]\<rparr>)"
proof -
  from assms have "item_id r = i" by (rule find_key_item_id [THEN conjunct1])
  with assms show ?thesis
    by (simp add: delete_item_def first_by_id_eq delete_commit_def called_def)
qed

subsection \<open>The table stays well formed\<close>

lemma table_ok_create: "table_ok (rows s) \<Longrightarrow> table_ok (rows (snd (create_item item s)))"
proof (cases "title item \<in> set (map title (rows s))")
  case True
  assume "table_ok (rows s)"
  with True show ?thesis by (simp add: create_item_conflict)
next
  case False
  assume ok: "table_ok (rows s)"
  have "next_id (rows s) \<notin> set (map item_id (rows s))"
    using next_id_fresh [of _ "rows s"] by force
  with ok False show ?thesis
    by (simp add: create_item_fresh table_ok_def new_Item_def)
qed

lemma distinct_titles_assign:
  assumes ids: "distinct (map item_id rs)"
    and titles: "distinct (map title rs)"
    and free: "\<not> (\<exists>r' \<in> set rs. item_id r' \<noteq> i \<and> title r' = title item)"
  shows "distinct (map title (map (\<lambda>r. if item_id r = i then assign item r else r) rs))"
proof -
  let ?t = "\<lambda>r. if item_id r = i then title item else title r"
  have eq: "map title (map (\<lambda>r. if item_id r = i then assign item r else r) rs) = map ?t rs"
    by (induction rs) simp_all
  from ids have d: "distinct rs" and inj_id: "inj_on item_id (set rs)"
    by (simp_all add: distinct_map)
  from titles have inj_title: "inj_on title (set rs)"
    by (simp add: distinct_map)
  have "inj_on ?t (set rs)"
  proof (rule inj_onI)
    fix a b
    assume a: "a \<in> set rs" and b: "b \<in> set rs" and ab: "?t a = ?t b"
    show "a = b"
    proof (cases "item_id a = i")
      case True
      note ia = this
      show ?thesis
      proof (cases "item_id b = i")
        case True
        with ia a b inj_id show ?thesis by (auto dest: inj_onD)
      next
        case False
        with ia ab b free show ?thesis by auto
      qed
    next
      case False
      note ia = this
      show ?thesis
      proof (cases "item_id b = i")
        case True
        with ia ab a free show ?thesis by auto
      next
        case False
        with ia ab have "title a = title b" by simp
        with a b inj_title show ?thesis by (auto dest: inj_onD)
      qed
    qed
  qed
  with d have "distinct (map ?t rs)" by (simp add: distinct_map)
  then show ?thesis unfolding eq .
qed

lemma map_item_id_assign:
  "map item_id (map (\<lambda>r. if item_id r = i then assign item r else r) rs) = map item_id rs"
  by (induction rs) auto

lemma table_ok_update: "table_ok (rows s) \<Longrightarrow> table_ok (rows (snd (update_item i item s)))"
proof -
  assume ok: "table_ok (rows s)"
  show ?thesis
  proof (cases "find (\<lambda>r. item_id r = i) (rows s)")
    case None
    with ok show ?thesis by (simp add: update_item_missing)
  next
    case (Some r)
    show ?thesis
    proof (cases "\<exists>r' \<in> set (rows s). item_id r' \<noteq> i \<and> title r' = title item")
      case True
      with Some ok show ?thesis by (simp add: update_item_duplicate)
    next
      case False
      from ok have "distinct (map item_id (rows s))" "distinct (map title (rows s))"
        by (simp_all add: table_ok_def)
      then have "distinct (map title (map (\<lambda>r. if item_id r = i then assign item r else r) (rows s)))"
        using False by (rule distinct_titles_assign)
      with ok show ?thesis
        by (simp add: update_item_done [OF Some False] table_ok_def map_item_id_assign
            del: map_map)
    qed
  qed
qed

lemma table_ok_filter: "table_ok rs \<Longrightarrow> table_ok (filter P rs)"
  by (simp add: table_ok_def distinct_map_filter)

lemma table_ok_delete: "table_ok (rows s) \<Longrightarrow> table_ok (rows (snd (delete_item i s)))"
proof (cases "find (\<lambda>r. item_id r = i) (rows s)")
  case None
  assume "table_ok (rows s)"
  with None show ?thesis by (simp add: delete_item_missing)
next
  case (Some r)
  assume "table_ok (rows s)"
  then show ?thesis by (simp add: delete_item_done [OF Some] table_ok_filter)
qed

lemma rows_get_item [simp]: "rows (snd (get_item i s)) = rows s"
  by (simp add: get_item_eq split: option.splits)

lemma rows_get_items [simp]: "rows (snd (get_items skip limit sort_by sort_order s)) = rows s"
  by (simp add: get_items_def Let_def split: option.splits)

lemma rows_GET_items [simp]: "rows (snd (GET_items q s)) = rows s"
  by (simp add: GET_items_def split: sum.splits prod.splits)

lemma table_ok_handle: "table_ok (rows s) \<Longrightarrow> table_ok (rows (handle req s))"
proof (cases req)
  case (Post b)
  assume "table_ok (rows s)"
  with Post show ?thesis
    by (simp add: POST_items_def table_ok_create split: sum.splits)
next
  case (GetList q)
  assume "table_ok (rows s)"
  with GetList show ?thesis by simp
next
  case (Get i)
  assume "table_ok (rows s)"
  with Get show ?thesis by simp
next
  case (Put i b)
  assume "table_ok (rows s)"
  with Put show ?thesis
    by (simp add: PUT_item_def table_ok_update split: sum.splits)
next
  case (Del i)
  assume "table_ok (rows s)"
  with Del show ?thesis by (simp add: table_ok_delete)
qed

lemma table_ok_fold: "table_ok (rows s) \<Longrightarrow> table_ok (rows (fold handle reqs s))"
  by (induction reqs arbitrary: s) (simp_all add: table_ok_handle)

lemma table_ok_run: "table_ok (rows (run reqs empty_db))"
  unfolding run_def by (rule table_ok_fold) (simp add: table_ok_def empty_db_def)

subsection \<open>Validation, deletion and ordering\<close>

lemma validate_ItemCreate_fields:
  assumes "validate_ItemCreate b = Inr item"
  shows "body_title b = Some (title item)"
    and "description item = body_description b"
    and "completed item = (case body_completed b of None \<Rightarrow> False | Some c \<Rightarrow> c)"
    and "priority item = (case body_priority b of None \<Rightarrow> 1 | Some p \<Rightarrow> p)"
    and "priority item \<in> {1, 2, 3}"
  using assms
  by (auto simp: validate_ItemCreate_def validate_priority_def
      split: option.splits sum.splits if_splits)

lemma length_filter_key:
  "distinct (map f xs) \<Longrightarrow> k \<in> set (map f xs) \<Longrightarrow> length (filter (\<lambda>x. f x = k) xs) = 1"
proof (induction xs)
  case Nil
  then show ?case by simp
next
  case (Cons x xs)
  show ?case
  proof (cases "f x = k")
    case True
    with Cons.prems(1) have "k \<notin> f ` set xs" by simp
    then have "\<forall>y \<in> set xs. f y \<noteq> k" by blast
    then have "filter (\<lambda>x. f x = k) xs = []" by (simp add: filter_empty_conv)
    with True show ?thesis by simp
  next
    case False
    with Cons show ?thesis by auto
  qed
qed

lemma getattr_sort_by_pattern:
  "sort_by_pattern v \<Longrightarrow> getattr_Item v \<in> {Some Col_id, Some Col_title, Some Col_completed, Some Col_priority}"
  by (auto simp: sort_by_pattern_def getattr_Item_def)

lemma mset_insort_by: "mset (insort_by le x xs) = add_mset x (mset xs)"
  by (induction xs) simp_all

lemma mset_order_by: "mset (order_by le xs) = mset xs"
  by (induction xs) (simp_all add: order_by_def mset_insort_by)

lemma set_insort_by: "set (insort_by le x xs) = insert x (set xs)"
  by (induction xs) auto

lemma sorted_insort_by:
  assumes total: "\<And>a b. le a b \<or> le b a"
    and trans: "\<And>a b c. le a b \<Longrightarrow> le b c \<Longrightarrow> le a c"
  shows "sorted_wrt le xs \<Longrightarrow> sorted_wrt le (insort_by le x xs)"
proof (induction xs)
  case Nil
  then show ?case by simp
next
  case (Cons y ys)
  show ?case
  proof (cases "le x y")
    case True
    with Cons.prems have "\<forall>z \<in> set ys. le x z" by (auto intro: trans)
    with True Cons.prems show ?thesis by simp
  next
    case False
    with total [of x y] have "le y x" by simp
    with False Cons show ?thesis by (simp add: set_insort_by)
  qed
qed

lemma sorted_order_by:
  assumes "\<And>a b. le a b \<or> le b a"
    and "\<And>a b c. le a b \<Longrightarrow> le b c \<Longrightarrow> le a c"
  shows "sorted_wrt le (order_by le xs)"
proof (induction xs)
  case Nil
  then show ?case by (simp add: order_by_def)
next
  case (Cons x xs)
  have "sorted_wrt le (insort_by le x (order_by le xs))"
    using assms Cons.IH by (rule sorted_insort_by)
  then show ?case by (simp add: order_by_def)
qed

lemma col_le_total: "col_le c a b \<or> col_le c b a"
  by (cases c) (simp_all add: linear)

lemma col_le_trans: "col_le c a b \<Longrightarrow> col_le c b d \<Longrightarrow> col_le c a d"
  by (cases c) (auto intro: order_trans)

lemma sorted_asc: "sorted_wrt (asc c) (order_by (asc c) xs)"
  by (rule sorted_order_by) (auto simp: asc_def col_le_total intro: col_le_trans)

lemma sorted_desc: "sorted_wrt (desc c) (order_by (desc c) xs)"
  by (rule sorted_order_by) (auto simp: desc_def col_le_total intro: col_le_trans)

lemma sorted_offset_limit: "sorted_wrt le xs \<Longrightarrow> sorted_wrt le (offset_limit skip limit xs)"
  by (simp add: offset_limit_def Let_def)

lemma offset_limit_nonneg:
  "0 \<le> limit \<Longrightarrow> offset_limit skip limit xs = take (nat limit) (drop (nat skip) xs)"
  by (simp add: offset_limit_def)

lemma asc_explicit:
  "asc Col_id = (\<lambda>a b. item_id a \<le> item_id b)"
  "asc Col_title = (\<lambda>a b. title a \<le> title b)"
  "asc Col_completed = (\<lambda>a b. completed a \<le> completed b)"
  "asc Col_priority = (\<lambda>a b. priority a \<le> priority b)"
  by (simp_all add: asc_def fun_eq_iff)

lemma desc_explicit:
  "desc Col_id = (\<lambda>a b. item_id b \<le> item_id a)"
  "desc Col_title = (\<lambda>a b. title b \<le> title a)"
  "desc Col_completed = (\<lambda>a b. completed b \<le> completed a)"
  "desc Col_priority = (\<lambda>a b. priority b \<le> priority a)"
  by (simp_all add: desc_def fun_eq_iff)

section \<open>The claims\<close>

subsection \<open>Titles are unique\<close>

text \<open>
  C1. The table is created empty, and every state of the database is reached from it by
  a sequence of requests. In every such state no two tasks have the same title, and the
  state that a create, an update or a delete leaves behind has the property again,
  whatever payload and identifier the handler is given. More generally, on any table
  whose keys are distinct and whose titles are distinct, each of the three operations
  leaves such a table. A create is stopped by its own lookup of the title; an update has
  no such lookup and is stopped by the unique index that the table's declaration puts on
  \<open>title\<close>.
\<close>

theorem titles_stay_unique:
  "distinct (map title (rows (run reqs empty_db)))
   \<and> distinct (map title (rows (snd (create_item item (run reqs empty_db)))))
   \<and> distinct (map title (rows (snd (update_item i item (run reqs empty_db)))))
   \<and> distinct (map title (rows (snd (delete_item i (run reqs empty_db)))))
   \<and> (table_ok (rows s) \<longrightarrow>
        table_ok (rows (snd (create_item item s)))
        \<and> table_ok (rows (snd (update_item i item s)))
        \<and> table_ok (rows (snd (delete_item i s))))"
  using table_ok_run [of reqs]
    table_ok_create [OF table_ok_run, of item reqs]
    table_ok_update [OF table_ok_run, of i item reqs]
    table_ok_delete [OF table_ok_run, of i reqs]
    table_ok_create [of s item] table_ok_update [of s i item] table_ok_delete [of s i]
  by (simp add: table_ok_def)

theorem titles_stay_unique_witness:
  "distinct (map title (rows (run
      [Post \<lparr>body_title = Some ''a'', body_description = None, body_completed = None, body_priority = None\<rparr>,
       Post \<lparr>body_title = Some ''b'', body_description = None, body_completed = None, body_priority = Some 3\<rparr>,
       Put 2 \<lparr>body_title = Some ''a'', body_description = None, body_completed = None, body_priority = None\<rparr>]
      empty_db)))
   \<and> map title (rows (run
      [Post \<lparr>body_title = Some ''a'', body_description = None, body_completed = None, body_priority = None\<rparr>,
       Post \<lparr>body_title = Some ''b'', body_description = None, body_completed = None, body_priority = Some 3\<rparr>,
       Put 2 \<lparr>body_title = Some ''a'', body_description = None, body_completed = None, body_priority = None\<rparr>]
      empty_db)) = [''a'', ''b'']
   \<and> table_ok (rows
      \<lparr>rows = [\<lparr>title = ''a'', description = None, completed = False, priority = 1, item_id = 1\<rparr>,
               \<lparr>title = ''b'', description = None, completed = False, priority = 3, item_id = 2\<rparr>],
       trace = []\<rparr>)
   \<and> table_ok (rows (snd (update_item 2
        \<lparr>title = ''a'', description = None, completed = False, priority = 1\<rparr>
      \<lparr>rows = [\<lparr>title = ''a'', description = None, completed = False, priority = 1, item_id = 1\<rparr>,
               \<lparr>title = ''b'', description = None, completed = False, priority = 3, item_id = 2\<rparr>],
       trace = []\<rparr>)))"
proof -
  let ?reqs = "[Post \<lparr>body_title = Some ''a'', body_description = None, body_completed = None, body_priority = None\<rparr>,
       Post \<lparr>body_title = Some ''b'', body_description = None, body_completed = None, body_priority = Some 3\<rparr>,
       Put 2 \<lparr>body_title = Some ''a'', body_description = None, body_completed = None, body_priority = None\<rparr>]"
  let ?s = "\<lparr>rows = [\<lparr>title = ''a'', description = None, completed = False, priority = 1, item_id = 1\<rparr>,
               \<lparr>title = ''b'', description = None, completed = False, priority = 3, item_id = 2\<rparr>],
       trace = []\<rparr>"
  let ?item = "\<lparr>title = ''a'', description = None, completed = False, priority = 1\<rparr>"
  have e: "map title (rows (run ?reqs empty_db)) = [''a'', ''b'']"
    by code_simp
  have ok: "table_ok (rows ?s)"
    by (simp add: table_ok_def)
  from titles_stay_unique [of ?reqs ?item 2 ?s]
  have d: "distinct (map title (rows (run ?reqs empty_db)))"
    and k: "table_ok (rows ?s) \<longrightarrow> table_ok (rows (snd (update_item 2 ?item ?s)))"
    by blast+
  from k ok have u: "table_ok (rows (snd (update_item 2 ?item ?s)))" by (rule mp)
  from d e ok u show ?thesis by (intro conjI)
qed

subsection \<open>Creating a task whose title is taken\<close>

text \<open>
  C2. In every state of the database, \<open>create_item\<close> on a payload whose title is the
  title of a stored task fails with the conflict error (status 400) and leaves the table
  as it was: the same rows, hence the same number of rows. Only the lookup is added to
  the trace.
\<close>

theorem create_item_existing_title:
  assumes "title item \<in> set (map title (rows s))"
  shows "fst (create_item item s) = Inl (HTTPException 400 ''Item with this title already exists'')
    \<and> status_code (HTTPException 400 ''Item with this title already exists'') = 400
    \<and> rows (snd (create_item item s)) = rows s
    \<and> length (rows (snd (create_item item s))) = length (rows s)
    \<and> trace (snd (create_item item s)) = trace s @ [Query]"
  using assms by (simp add: create_item_conflict)

theorem create_item_existing_title_witness:
  "title \<lparr>title = ''buy milk'', description = None, completed = False, priority = 2\<rparr>
     \<in> set (map title (rows \<lparr>rows = [new_Item \<lparr>title = ''buy milk'', description = None,
          completed = False, priority = 2\<rparr> 1], trace = []\<rparr>))
   \<and> fst (create_item \<lparr>title = ''buy milk'', description = None, completed = False, priority = 2\<rparr>
        \<lparr>rows = [new_Item \<lparr>title = ''buy milk'', description = None,
          completed = False, priority = 2\<rparr> 1], trace = []\<rparr>)
     = Inl (HTTPException 400 ''Item with this title already exists'')
   \<and> rows (snd (create_item \<lparr>title = ''buy milk'', description = None, completed = False, priority = 2\<rparr>
        \<lparr>rows = [new_Item \<lparr>title = ''buy milk'', description = None,
          completed = False, priority = 2\<rparr> 1], trace = []\<rparr>))
     = [new_Item \<lparr>title = ''buy milk'', description = None, completed = False, priority = 2\<rparr> 1]"
proof -
  let ?item = "\<lparr>title = ''buy milk'', description = None, completed = False, priority = 2\<rparr>"
  let ?s = "\<lparr>rows = [new_Item ?item 1], trace = []\<rparr>"
  have h: "title ?item \<in> set (map title (rows ?s))"
    by (simp add: new_Item_def)
  from create_item_existing_title [OF h] h show ?thesis
    by simp
qed

subsection \<open>Creating a task and fetching it\<close>

text \<open>
  C3. A body that validation accepts and whose title no stored task has: \<open>POST /items/\<close>
  returns a row, and fetching by the key of that row returns the same row. Its title,
  description, completed flag and priority are the ones that were sent, a field that was
  not sent having its default. The key is an integer (a row has no null key): the one
  the engine assigned, which no earlier row has.
\<close>

theorem create_then_fetch:
  assumes "validate_ItemCreate b = Inr item"
    and "title item \<notin> set (map title (rows s))"
  shows "\<exists>row s'. POST_items b s = (Inr row, s')
     \<and> fst (get_item (item_id row) s') = Inr row
     \<and> body_title b = Some (title row)
     \<and> description row = body_description b
     \<and> completed row = (case body_completed b of None \<Rightarrow> False | Some c \<Rightarrow> c)
     \<and> priority row = (case body_priority b of None \<Rightarrow> 1 | Some p \<Rightarrow> p)
     \<and> item_id row = next_id (rows s)
     \<and> item_id row \<notin> set (map item_id (rows s))"
proof -
  let ?row = "new_Item item (next_id (rows s))"
  let ?s' = "\<lparr>rows = rows s @ [?row], trace = trace s @ [Query, Add, Commit, Refresh]\<rparr>"
  have post: "POST_items b s = (Inr ?row, ?s')"
    using assms by (simp add: POST_items_def create_item_fresh)
  have fresh: "next_id (rows s) \<notin> set (map item_id (rows s))"
    using next_id_fresh [of _ "rows s"] by force
  have "find (\<lambda>r. item_id r = next_id (rows s)) (rows s @ [?row]) = Some ?row"
    by (rule find_fresh_append) (auto simp: new_Item_def dest: next_id_fresh)
  then have get: "fst (get_item (item_id ?row) ?s') = Inr ?row"
    by (simp add: get_item_eq new_Item_def)
  have fields: "title ?row = title item" "description ?row = description item"
    "completed ?row = completed item" "priority ?row = priority item"
    "item_id ?row = next_id (rows s)"
    by (simp_all add: new_Item_def)
  note sent = validate_ItemCreate_fields(1-4) [OF assms(1)]
  show ?thesis
  proof (intro exI conjI)
    show "POST_items b s = (Inr ?row, ?s')" by (rule post)
    show "fst (get_item (item_id ?row) ?s') = Inr ?row" by (rule get)
    show "body_title b = Some (title ?row)" using sent(1) fields(1) by simp
    show "description ?row = body_description b" using sent(2) fields(2) by simp
    show "completed ?row = (case body_completed b of None \<Rightarrow> False | Some c \<Rightarrow> c)"
      using sent(3) fields(3) by simp
    show "priority ?row = (case body_priority b of None \<Rightarrow> 1 | Some p \<Rightarrow> p)"
      using sent(4) fields(4) by simp
    show "item_id ?row = next_id (rows s)" by (rule fields(5))
    show "item_id ?row \<notin> set (map item_id (rows s))" using fresh fields(5) by simp
  qed
qed

theorem create_then_fetch_witness:
  "validate_ItemCreate
     \<lparr>body_title = Some ''buy milk'', body_description = None, body_completed = None,
      body_priority = Some 2\<rparr>
     = Inr \<lparr>title = ''buy milk'', description = None, completed = False, priority = 2\<rparr>
   \<and> title \<lparr>title = ''buy milk'', description = None, completed = False, priority = 2\<rparr>
       \<notin> set (map title (rows empty_db))
   \<and> (\<exists>row s'. POST_items
          \<lparr>body_title = Some ''buy milk'', body_description = None, body_completed = None,
           body_priority = Some 2\<rparr> empty_db = (Inr row, s')
        \<and> fst (get_item (item_id row) s') = Inr row
        \<and> title row = ''buy milk'' \<and> description row = None
        \<and> completed row = False \<and> priority row = 2 \<and> item_id row = 1)"
proof -
  let ?b = "\<lparr>body_title = Some ''buy milk'', body_description = None, body_completed = None,
      body_priority = Some 2\<rparr>"
  let ?item = "\<lparr>title = ''buy milk'', description = None, completed = False, priority = 2\<rparr>"
  have h1: "validate_ItemCreate ?b = Inr ?item"
    by (simp add: validate_ItemCreate_def validate_priority_def)
  have h2: "title ?item \<notin> set (map title (rows empty_db))"
    by (simp add: empty_db_def)
  have n: "next_id (rows empty_db) = 1"
    by (simp add: next_id_def empty_db_def)
  from create_then_fetch [OF h1 h2] obtain row s' where
    "POST_items ?b empty_db = (Inr row, s')" "fst (get_item (item_id row) s') = Inr row"
    "body_title ?b = Some (title row)" "description row = body_description ?b"
    "completed row = (case body_completed ?b of None \<Rightarrow> False | Some c \<Rightarrow> c)"
    "priority row = (case body_priority ?b of None \<Rightarrow> 1 | Some p \<Rightarrow> p)"
    "item_id row = next_id (rows empty_db)"
    by blast
  with n have "\<exists>row s'. POST_items ?b empty_db = (Inr row, s')
        \<and> fst (get_item (item_id row) s') = Inr row
        \<and> title row = ''buy milk'' \<and> description row = None
        \<and> completed row = False \<and> priority row = 2 \<and> item_id row = 1"
    by auto
  with h1 h2 show ?thesis by (intro conjI)
qed

subsection \<open>The title of a create request\<close>

text \<open>
  The claim asks for more than the code checks: a create request whose title is the
  empty string is accepted by validation and stored.
\<close>

theorem empty_title_counterexample:
  "validate_ItemCreate
     \<lparr>body_title = Some '''', body_description = None, body_completed = None,
      body_priority = None\<rparr>
     = Inr \<lparr>title = '''', description = None, completed = False, priority = 1\<rparr>
   \<and> POST_items
     \<lparr>body_title = Some '''', body_description = None, body_completed = None,
      body_priority = None\<rparr> empty_db
     = (Inr \<lparr>title = '''', description = None, completed = False, priority = 1, item_id = 1\<rparr>,
        \<lparr>rows = [\<lparr>title = '''', description = None, completed = False, priority = 1, item_id = 1\<rparr>],
         trace = [Query, Add, Commit, Refresh]\<rparr>)"
  by (simp add: validate_ItemCreate_def POST_items_def create_item_def query_first_def
      insert_commit_def refresh_def called_def next_id_def new_Item_def empty_db_def Let_def)

text \<open>
  C4, as the code has it. The title is required: a create request without a title fails
  with a validation error (status 422), and the state is untouched: no call on a session,
  no write. A title that is present passes, whatever string it is, the empty string
  included; the schema declares \<open>title: str\<close> and nothing on its length.
\<close>

theorem title_required:
  "(body_title b = None \<longrightarrow>
      POST_items b s = (Inl RequestValidationError, s) \<and> status_code RequestValidationError = 422)
   \<and> (body_title b = Some t \<and> (case body_priority b of None \<Rightarrow> True | Some p \<Rightarrow> p \<in> {1, 2, 3}) \<longrightarrow>
      (\<exists>item. validate_ItemCreate b = Inr item \<and> title item = t))"
  by (auto simp: POST_items_def validate_ItemCreate_def validate_priority_def split: option.splits)

theorem title_required_witness:
  "body_title \<lparr>body_title = None, body_description = Some ''x'', body_completed = None,
      body_priority = Some 2\<rparr> = None
   \<and> POST_items \<lparr>body_title = None, body_description = Some ''x'', body_completed = None,
      body_priority = Some 2\<rparr> empty_db = (Inl RequestValidationError, empty_db)
   \<and> (\<exists>item. validate_ItemCreate \<lparr>body_title = Some '''', body_description = None,
        body_completed = None, body_priority = None\<rparr> = Inr item \<and> title item = '''')"
proof -
  let ?b0 = "\<lparr>body_title = None, body_description = Some ''x'', body_completed = None,
      body_priority = Some 2\<rparr>"
  let ?b1 = "\<lparr>body_title = Some '''', body_description = None,
        body_completed = None, body_priority = None\<rparr>"
  have h0: "body_title ?b0 = None" by simp
  have h1: "body_title ?b1 = Some '''' \<and>
      (case body_priority ?b1 of None \<Rightarrow> True | Some p \<Rightarrow> p \<in> {1, 2, 3})" by simp
  from title_required [of ?b0 empty_db] h0
  have a: "POST_items ?b0 empty_db = (Inl RequestValidationError, empty_db)" by blast
  from title_required [of ?b1 _ "''''"] h1
  have b: "\<exists>item. validate_ItemCreate ?b1 = Inr item \<and> title item = ''''" by blast
  from h0 a b show ?thesis by (intro conjI)
qed

subsection \<open>The priority of a create or update request\<close>

text \<open>
  C5. A create or update request whose priority is present and not one of 1, 2, 3 fails
  with a validation error (status 422), and the state is untouched: no call on a session,
  no write. A priority that is one of 1, 2, 3 is returned by the validator as it is, and
  the validated payload carries it.
\<close>

theorem priority_validation:
  "(body_priority b = Some p \<and> p \<notin> {1, 2, 3} \<longrightarrow>
      POST_items b s = (Inl RequestValidationError, s)
      \<and> PUT_item i b s = (Inl RequestValidationError, s)
      \<and> status_code RequestValidationError = 422)
   \<and> (p \<in> {1, 2, 3} \<longrightarrow>
      validate_priority p = Inr p
      \<and> (body_priority b = Some p \<and> body_title b = Some t \<longrightarrow>
           (\<exists>item. validate_ItemCreate b = Inr item \<and> priority item = p)))"
  by (auto simp: POST_items_def PUT_item_def validate_ItemCreate_def validate_priority_def
      split: option.splits)

theorem priority_validation_witness:
  "body_priority \<lparr>body_title = Some ''a'', body_description = None, body_completed = None,
      body_priority = Some 5\<rparr> = Some 5
   \<and> (5::int) \<notin> {1, 2, 3}
   \<and> POST_items \<lparr>body_title = Some ''a'', body_description = None, body_completed = None,
      body_priority = Some 5\<rparr> empty_db = (Inl RequestValidationError, empty_db)
   \<and> PUT_item 1 \<lparr>body_title = Some ''a'', body_description = None, body_completed = None,
      body_priority = Some 5\<rparr> empty_db = (Inl RequestValidationError, empty_db)
   \<and> (2::int) \<in> {1, 2, 3}
   \<and> validate_priority 2 = Inr 2
   \<and> (\<exists>item. validate_ItemCreate \<lparr>body_title = Some ''a'', body_description = None,
        body_completed = None, body_priority = Some 2\<rparr> = Inr item \<and> priority item = 2)"
proof -
  let ?b5 = "\<lparr>body_title = Some ''a'', body_description = None, body_completed = None,
      body_priority = Some 5\<rparr>"
  let ?b2 = "\<lparr>body_title = Some ''a'', body_description = None,
        body_completed = None, body_priority = Some 2\<rparr>"
  have h5: "body_priority ?b5 = Some 5" by simp
  have n5: "(5::int) \<notin> {1, 2, 3}" by simp
  have h2: "(2::int) \<in> {1, 2, 3}" by simp
  have b2: "body_priority ?b2 = Some 2 \<and> body_title ?b2 = Some ''a''" by simp
  from priority_validation [of ?b5 5 empty_db 1] h5 n5
  have a: "POST_items ?b5 empty_db = (Inl RequestValidationError, empty_db)"
    and b: "PUT_item 1 ?b5 empty_db = (Inl RequestValidationError, empty_db)"
    by blast+
  from priority_validation [of ?b2 2 _ _ "''a''"] h2 b2
  have c: "validate_priority 2 = Inr 2"
    and d: "\<exists>item. validate_ItemCreate ?b2 = Inr item \<and> priority item = 2"
    by blast+
  from h5 n5 a b h2 c d show ?thesis by (intro conjI)
qed

subsection \<open>Listing\<close>

text \<open>
  The claim as worded is about every integer \<open>skip\<close> and \<open>limit\<close>. An offset that does
  not fit in 64 bits cannot be bound to the statement: the listing raises
  \<open>OverflowError\<close>, which no handler catches (status 500), and returns no list.
\<close>

theorem list_overflow_counterexample:
  "sort_by_pattern ''id'' \<and> sort_order_pattern ''asc''
   \<and> get_items 9223372036854775808 10 ''id'' ''asc'' empty_db
      = (Inl OverflowError, \<lparr>rows = [], trace = [Query]\<rparr>)
   \<and> GET_items \<lparr>q_skip = Some 9223372036854775808, q_limit = None, q_sort_by = None,
        q_sort_order = None\<rparr> empty_db
      = (Inl OverflowError, \<lparr>rows = [], trace = [Query]\<rparr>)
   \<and> status_code OverflowError = 500"
  by code_simp

text \<open>
  C6, as the code has it. For a sort field among \<open>id\<close>, \<open>title\<close>, \<open>completed\<close>,
  \<open>priority\<close>, a direction among \<open>asc\<close>, \<open>desc\<close>, and integers \<open>skip\<close> and
  \<open>limit\<close> in the signed 64-bit range, \<open>get_items\<close> returns the slice, by offset
  \<open>skip\<close> and limit \<open>limit\<close>, of the stored tasks put in the order of the field in the
  direction asked: the ordered list has exactly the stored rows, it is sorted, and so is
  the slice. Field by field and direction by direction: ascending, each row's field is at
  most the field of every later row; descending, at least. For \<open>skip\<close> and \<open>limit\<close>
  that are not negative the slice is \<open>take limit (drop skip \<dots>)\<close>. The table is not
  changed. With \<open>priority\<close> and \<open>desc\<close> the priorities of the returned tasks never
  increase.
\<close>

theorem get_items_ordered_slice:
  assumes "sort_by_pattern sort_by" and "sort_order_pattern sort_order"
    and "int64 skip" and "int64 limit"
  shows "\<exists>c. getattr_Item sort_by = Some c
     \<and> (let le = (if sort_order = ''asc'' then asc c else desc c);
             ordered = order_by le (rows s)
         in fst (get_items skip limit sort_by sort_order s) = Inr (offset_limit skip limit ordered)
            \<and> mset ordered = mset (rows s)
            \<and> sorted_wrt le ordered
            \<and> sorted_wrt le (offset_limit skip limit ordered)
            \<and> (sort_by = ''id'' \<and> sort_order = ''asc'' \<longrightarrow>
                 sorted_wrt (\<lambda>a b. item_id a \<le> item_id b) ordered)
            \<and> (sort_by = ''id'' \<and> sort_order = ''desc'' \<longrightarrow>
                 sorted_wrt (\<lambda>a b. item_id b \<le> item_id a) ordered)
            \<and> (sort_by = ''title'' \<and> sort_order = ''asc'' \<longrightarrow>
                 sorted_wrt (\<lambda>a b. title a \<le> title b) ordered)
            \<and> (sort_by = ''title'' \<and> sort_order = ''desc'' \<longrightarrow>
                 sorted_wrt (\<lambda>a b. title b \<le> title a) ordered)
            \<and> (sort_by = ''completed'' \<and> sort_order = ''asc'' \<longrightarrow>
                 sorted_wrt (\<lambda>a b. completed a \<le> completed b) ordered)
            \<and> (sort_by = ''completed'' \<and> sort_order = ''desc'' \<longrightarrow>
                 sorted_wrt (\<lambda>a b. completed b \<le> completed a) ordered)
            \<and> (sort_by = ''priority'' \<and> sort_order = ''asc'' \<longrightarrow>
                 sorted_wrt (\<lambda>a b. priority a \<le> priority b) ordered)
            \<and> (sort_by = ''priority'' \<and> sort_order = ''desc'' \<longrightarrow>
                 sorted_wrt (\<lambda>a b. priority b \<le> priority a) ordered)
            \<and> (0 \<le> skip \<and> 0 \<le> limit \<longrightarrow>
                 offset_limit skip limit ordered = take (nat limit) (drop (nat skip) ordered))
            \<and> rows (snd (get_items skip limit sort_by sort_order s)) = rows s)
     \<and> (sort_by = ''priority'' \<and> sort_order = ''desc'' \<longrightarrow>
          (\<exists>items. fst (get_items skip limit sort_by sort_order s) = Inr items
             \<and> sorted_wrt (\<lambda>a b. priority b \<le> priority a) items))"
proof -
  from assms(1) obtain c where c: "getattr_Item sort_by = Some c"
    using getattr_sort_by_pattern by fastforce
  let ?le = "if sort_order = ''asc'' then asc c else desc c"
  let ?ordered = "order_by ?le (rows s)"
  have res: "fst (get_items skip limit sort_by sort_order s) = Inr (offset_limit skip limit ?ordered)"
    using c assms(3,4) by (simp add: get_items_def)
  have perm: "mset ?ordered = mset (rows s)" by (rule mset_order_by)
  have srt: "sorted_wrt ?le ?ordered" by (simp add: sorted_asc sorted_desc)
  then have slice: "sorted_wrt ?le (offset_limit skip limit ?ordered)" by (rule sorted_offset_limit)
  have col: "sort_by = ''id'' \<Longrightarrow> c = Col_id" "sort_by = ''title'' \<Longrightarrow> c = Col_title"
    "sort_by = ''completed'' \<Longrightarrow> c = Col_completed" "sort_by = ''priority'' \<Longrightarrow> c = Col_priority"
    using c by (simp_all add: getattr_Item_def)
  have id_asc: "sorted_wrt (\<lambda>a b. item_id a \<le> item_id b) ?ordered"
    if "sort_by = ''id''" "sort_order = ''asc''"
    using srt col(1) [OF that(1)] that(2) by (simp add: asc_explicit)
  have id_desc: "sorted_wrt (\<lambda>a b. item_id b \<le> item_id a) ?ordered"
    if "sort_by = ''id''" "sort_order = ''desc''"
    using srt col(1) [OF that(1)] that(2) by (simp add: desc_explicit)
  have title_asc: "sorted_wrt (\<lambda>a b. title a \<le> title b) ?ordered"
    if "sort_by = ''title''" "sort_order = ''asc''"
    using srt col(2) [OF that(1)] that(2) by (simp add: asc_explicit)
  have title_desc: "sorted_wrt (\<lambda>a b. title b \<le> title a) ?ordered"
    if "sort_by = ''title''" "sort_order = ''desc''"
    using srt col(2) [OF that(1)] that(2) by (simp add: desc_explicit)
  have completed_asc: "sorted_wrt (\<lambda>a b. completed a \<le> completed b) ?ordered"
    if "sort_by = ''completed''" "sort_order = ''asc''"
    using srt col(3) [OF that(1)] that(2) by (simp add: asc_explicit)
  have completed_desc: "sorted_wrt (\<lambda>a b. completed b \<le> completed a) ?ordered"
    if "sort_by = ''completed''" "sort_order = ''desc''"
    using srt col(3) [OF that(1)] that(2) by (simp add: desc_explicit)
  have priority_asc: "sorted_wrt (\<lambda>a b. priority a \<le> priority b) ?ordered"
    if "sort_by = ''priority''" "sort_order = ''asc''"
    using srt col(4) [OF that(1)] that(2) by (simp add: asc_explicit)
  have priority_desc: "sorted_wrt (\<lambda>a b. priority b \<le> priority a) ?ordered"
    if "sort_by = ''priority''" "sort_order = ''desc''"
    using srt col(4) [OF that(1)] that(2) by (simp add: desc_explicit)
  have prio: "sorted_wrt (\<lambda>a b. priority b \<le> priority a) (offset_limit skip limit ?ordered)"
    if "sort_by = ''priority''" and "sort_order = ''desc''"
    using priority_desc [OF that] by (rule sorted_offset_limit)
  have unchanged: "rows (snd (get_items skip limit sort_by sort_order s)) = rows s"
    by simp
  have nonneg: "0 \<le> skip \<and> 0 \<le> limit \<longrightarrow>
      offset_limit skip limit ?ordered = take (nat limit) (drop (nat skip) ?ordered)"
    by (simp add: offset_limit_nonneg)
  show ?thesis
    unfolding Let_def
  proof (intro exI [of _ c] conjI)
    show "getattr_Item sort_by = Some c" by (rule c)
    show "fst (get_items skip limit sort_by sort_order s) = Inr (offset_limit skip limit ?ordered)"
      by (rule res)
    show "mset ?ordered = mset (rows s)" by (rule perm)
    show "sorted_wrt ?le ?ordered" by (rule srt)
    show "sorted_wrt ?le (offset_limit skip limit ?ordered)" by (rule slice)
    show "sort_by = ''id'' \<and> sort_order = ''asc'' \<longrightarrow>
        sorted_wrt (\<lambda>a b. item_id a \<le> item_id b) ?ordered"
      using id_asc by blast
    show "sort_by = ''id'' \<and> sort_order = ''desc'' \<longrightarrow>
        sorted_wrt (\<lambda>a b. item_id b \<le> item_id a) ?ordered"
      using id_desc by blast
    show "sort_by = ''title'' \<and> sort_order = ''asc'' \<longrightarrow>
        sorted_wrt (\<lambda>a b. title a \<le> title b) ?ordered"
      using title_asc by blast
    show "sort_by = ''title'' \<and> sort_order = ''desc'' \<longrightarrow>
        sorted_wrt (\<lambda>a b. title b \<le> title a) ?ordered"
      using title_desc by blast
    show "sort_by = ''completed'' \<and> sort_order = ''asc'' \<longrightarrow>
        sorted_wrt (\<lambda>a b. completed a \<le> completed b) ?ordered"
      using completed_asc by blast
    show "sort_by = ''completed'' \<and> sort_order = ''desc'' \<longrightarrow>
        sorted_wrt (\<lambda>a b. completed b \<le> completed a) ?ordered"
      using completed_desc by blast
    show "sort_by = ''priority'' \<and> sort_order = ''asc'' \<longrightarrow>
        sorted_wrt (\<lambda>a b. priority a \<le> priority b) ?ordered"
      using priority_asc by blast
    show "sort_by = ''priority'' \<and> sort_order = ''desc'' \<longrightarrow>
        sorted_wrt (\<lambda>a b. priority b \<le> priority a) ?ordered"
      using priority_desc by blast
    show "0 \<le> skip \<and> 0 \<le> limit \<longrightarrow>
      offset_limit skip limit ?ordered = take (nat limit) (drop (nat skip) ?ordered)"
      by (rule nonneg)
    show "rows (snd (get_items skip limit sort_by sort_order s)) = rows s" by (rule unchanged)
    show "sort_by = ''priority'' \<and> sort_order = ''desc'' \<longrightarrow>
          (\<exists>items. fst (get_items skip limit sort_by sort_order s) = Inr items
             \<and> sorted_wrt (\<lambda>a b. priority b \<le> priority a) items)"
      using res prio by auto
  qed
qed

theorem get_items_ordered_slice_witness:
  "sort_by_pattern ''priority'' \<and> sort_order_pattern ''desc'' \<and> int64 1 \<and> int64 2
   \<and> (\<exists>items. fst (get_items 1 2 ''priority'' ''desc''
          \<lparr>rows = [\<lparr>title = ''a'', description = None, completed = False, priority = 1, item_id = 1\<rparr>,
                   \<lparr>title = ''b'', description = None, completed = True, priority = 3, item_id = 2\<rparr>,
                   \<lparr>title = ''c'', description = None, completed = False, priority = 2, item_id = 3\<rparr>],
           trace = []\<rparr>) = Inr items
        \<and> sorted_wrt (\<lambda>a b. priority b \<le> priority a) items)
   \<and> fst (get_items 1 2 ''priority'' ''desc''
          \<lparr>rows = [\<lparr>title = ''a'', description = None, completed = False, priority = 1, item_id = 1\<rparr>,
                   \<lparr>title = ''b'', description = None, completed = True, priority = 3, item_id = 2\<rparr>,
                   \<lparr>title = ''c'', description = None, completed = False, priority = 2, item_id = 3\<rparr>],
           trace = []\<rparr>)
      = Inr [\<lparr>title = ''c'', description = None, completed = False, priority = 2, item_id = 3\<rparr>,
             \<lparr>title = ''a'', description = None, completed = False, priority = 1, item_id = 1\<rparr>]"
proof -
  let ?s = "\<lparr>rows = [\<lparr>title = ''a'', description = None, completed = False, priority = 1, item_id = 1\<rparr>,
                   \<lparr>title = ''b'', description = None, completed = True, priority = 3, item_id = 2\<rparr>,
                   \<lparr>title = ''c'', description = None, completed = False, priority = 2, item_id = 3\<rparr>],
           trace = []\<rparr>"
  have h1: "sort_by_pattern ''priority''" by (simp add: sort_by_pattern_def)
  have h2: "sort_order_pattern ''desc''" by (simp add: sort_order_pattern_def)
  have h3: "int64 1" by (simp add: int64_def)
  have h4: "int64 2" by (simp add: int64_def)
  from get_items_ordered_slice [OF h1 h2 h3 h4, of ?s]
  have a: "\<exists>items. fst (get_items 1 2 ''priority'' ''desc'' ?s) = Inr items
        \<and> sorted_wrt (\<lambda>a b. priority b \<le> priority a) items"
    by blast
  have b: "fst (get_items 1 2 ''priority'' ''desc'' ?s)
      = Inr [\<lparr>title = ''c'', description = None, completed = False, priority = 2, item_id = 3\<rparr>,
             \<lparr>title = ''a'', description = None, completed = False, priority = 1, item_id = 1\<rparr>]"
    by (simp add: get_items_def getattr_Item_def order_by_def desc_def offset_limit_def
        int64_def Let_def)
  from h1 h2 h3 h4 a b show ?thesis by (intro conjI)
qed

subsection \<open>Updating a task\<close>

text \<open>
  The claim as worded fails where the payload's title belongs to another task: after two
  creates, replacing the second task by a payload with the first task's title is refused
  by the unique index at \<open>commit()\<close>; no handler catches the error (status 500), and the
  table keeps both titles.
\<close>

theorem duplicate_title_update_counterexample:
  "map title (rows (run
      [Post \<lparr>body_title = Some ''a'', body_description = None, body_completed = None, body_priority = None\<rparr>,
       Post \<lparr>body_title = Some ''b'', body_description = None, body_completed = None, body_priority = None\<rparr>]
      empty_db)) = [''a'', ''b'']
   \<and> map item_id (rows (run
      [Post \<lparr>body_title = Some ''a'', body_description = None, body_completed = None, body_priority = None\<rparr>,
       Post \<lparr>body_title = Some ''b'', body_description = None, body_completed = None, body_priority = None\<rparr>]
      empty_db)) = [1, 2]
   \<and> validate_ItemCreate
        \<lparr>body_title = Some ''a'', body_description = None, body_completed = None, body_priority = None\<rparr>
      = Inr \<lparr>title = ''a'', description = None, completed = False, priority = 1\<rparr>
   \<and> fst (update_item 2 \<lparr>title = ''a'', description = None, completed = False, priority = 1\<rparr>
        (run
      [Post \<lparr>body_title = Some ''a'', body_description = None, body_completed = None, body_priority = None\<rparr>,
       Post \<lparr>body_title = Some ''b'', body_description = None, body_completed = None, body_priority = None\<rparr>]
      empty_db)) = Inl IntegrityError
   \<and> map title (rows (snd (update_item 2 \<lparr>title = ''a'', description = None, completed = False, priority = 1\<rparr>
        (run
      [Post \<lparr>body_title = Some ''a'', body_description = None, body_completed = None, body_priority = None\<rparr>,
       Post \<lparr>body_title = Some ''b'', body_description = None, body_completed = None, body_priority = None\<rparr>]
      empty_db)))) = [''a'', ''b'']
   \<and> status_code IntegrityError = 500"
  by code_simp

text \<open>
  C7, as the code has it. For an identifier that a stored task has and a payload whose
  title no other task has, \<open>update_item\<close> returns a row with the payload's title,
  description, completed flag and priority and with the identifier it was given; the
  keys of the table are as before, every row with another key is as before, the row with
  the key is the old row with the four fields assigned, and fetching by the identifier
  returns the row that was returned.
\<close>

theorem update_item_overwrites:
  assumes "i \<in> set (map item_id (rows s))"
    and "\<not> (\<exists>r' \<in> set (rows s). item_id r' \<noteq> i \<and> title r' = title item)"
  shows "\<exists>row s'. update_item i item s = (Inr row, s')
     \<and> title row = title item
     \<and> description row = description item
     \<and> completed row = completed item
     \<and> priority row = priority item
     \<and> item_id row = i
     \<and> map item_id (rows s') = map item_id (rows s)
     \<and> length (rows s') = length (rows s)
     \<and> (\<forall>k < length (rows s). item_id (rows s ! k) \<noteq> i \<longrightarrow> rows s' ! k = rows s ! k)
     \<and> (\<forall>k < length (rows s). item_id (rows s ! k) = i \<longrightarrow> rows s' ! k = assign item (rows s ! k))
     \<and> fst (get_item i s') = Inr row"
proof -
  let ?f = "\<lambda>r. if item_id r = i then assign item r else r"
  from assms(1) obtain r where r: "find (\<lambda>r. item_id r = i) (rows s) = Some r"
    using find_key_present by blast
  let ?s' = "\<lparr>rows = map ?f (rows s), trace = trace s @ [Query, Commit, Refresh]\<rparr>"
  have upd: "update_item i item s = (Inr (assign item r), ?s')"
    using r assms(2) by (rule update_item_done)
  have id: "item_id r = i" using r by (rule find_key_item_id [THEN conjunct1])
  have "find (\<lambda>r. item_id r = i) (map ?f (rows s)) = map_option ?f (find (\<lambda>r. item_id r = i) (rows s))"
    by (rule find_map_keep) simp
  with r id have get: "fst (get_item i ?s') = Inr (assign item r)"
    by (simp add: get_item_eq)
  show ?thesis
  proof (intro exI conjI)
    show "update_item i item s = (Inr (assign item r), ?s')" by (rule upd)
    show "title (assign item r) = title item" by (simp add: assign_def)
    show "description (assign item r) = description item" by (simp add: assign_def)
    show "completed (assign item r) = completed item" by (simp add: assign_def)
    show "priority (assign item r) = priority item" by (simp add: assign_def)
    show "item_id (assign item r) = i" using id by simp
    show "map item_id (rows ?s') = map item_id (rows s)" by (simp add: map_item_id_assign del: map_map)
    show "length (rows ?s') = length (rows s)" by simp
    show "\<forall>k < length (rows s). item_id (rows s ! k) \<noteq> i \<longrightarrow> rows ?s' ! k = rows s ! k" by simp
    show "\<forall>k < length (rows s). item_id (rows s ! k) = i \<longrightarrow> rows ?s' ! k = assign item (rows s ! k)" by simp
    show "fst (get_item i ?s') = Inr (assign item r)" by (rule get)
  qed
qed

theorem update_item_overwrites_witness:
  "2 \<in> set (map item_id (rows
      \<lparr>rows = [\<lparr>title = ''a'', description = None, completed = False, priority = 1, item_id = 1\<rparr>,
               \<lparr>title = ''b'', description = None, completed = False, priority = 1, item_id = 2\<rparr>],
       trace = []\<rparr>))
   \<and> \<not> (\<exists>r' \<in> set (rows
      \<lparr>rows = [\<lparr>title = ''a'', description = None, completed = False, priority = 1, item_id = 1\<rparr>,
               \<lparr>title = ''b'', description = None, completed = False, priority = 1, item_id = 2\<rparr>],
       trace = []\<rparr>). item_id r' \<noteq> 2
         \<and> title r' = title \<lparr>title = ''c'', description = Some ''d'', completed = True, priority = 3\<rparr>)
   \<and> (\<exists>row s'. update_item 2 \<lparr>title = ''c'', description = Some ''d'', completed = True, priority = 3\<rparr>
      \<lparr>rows = [\<lparr>title = ''a'', description = None, completed = False, priority = 1, item_id = 1\<rparr>,
               \<lparr>title = ''b'', description = None, completed = False, priority = 1, item_id = 2\<rparr>],
       trace = []\<rparr> = (Inr row, s')
       \<and> title row = ''c'' \<and> description row = Some ''d'' \<and> completed row = True
       \<and> priority row = 3 \<and> item_id row = 2
       \<and> fst (get_item 2 s') = Inr row)"
proof -
  let ?s = "\<lparr>rows = [\<lparr>title = ''a'', description = None, completed = False, priority = 1, item_id = 1\<rparr>,
               \<lparr>title = ''b'', description = None, completed = False, priority = 1, item_id = 2\<rparr>],
       trace = []\<rparr>"
  let ?item = "\<lparr>title = ''c'', description = Some ''d'', completed = True, priority = 3\<rparr>"
  have h1: "2 \<in> set (map item_id (rows ?s))" by simp
  have h2: "\<not> (\<exists>r' \<in> set (rows ?s). item_id r' \<noteq> 2 \<and> title r' = title ?item)" by simp
  from update_item_overwrites [OF h1 h2]
  have "\<exists>row s'. update_item 2 ?item ?s = (Inr row, s')
       \<and> title row = ''c'' \<and> description row = Some ''d'' \<and> completed row = True
       \<and> priority row = 3 \<and> item_id row = 2
       \<and> fst (get_item 2 s') = Inr row"
    by (auto simp del: One_nat_def)
  with h1 h2 show ?thesis by (intro conjI)
qed

subsection \<open>Updating a task that does not exist\<close>

text \<open>
  The claim as worded is about every identifier that no task has. One that does not fit
  in 64 bits cannot be bound to the lookup: \<open>PUT /items/9223372036854775808\<close> with a
  valid body raises \<open>OverflowError\<close>, which no handler catches (status 500), where the
  claim says not found.
\<close>

theorem update_unknown_id_overflow_counterexample:
  "9223372036854775808 \<notin> set (map item_id (rows (run
      [Post \<lparr>body_title = Some ''a'', body_description = None, body_completed = None, body_priority = None\<rparr>]
      empty_db)))
   \<and> validate_ItemCreate
        \<lparr>body_title = Some ''b'', body_description = None, body_completed = None, body_priority = None\<rparr>
      = Inr \<lparr>title = ''b'', description = None, completed = False, priority = 1\<rparr>
   \<and> fst (update_item 9223372036854775808
        \<lparr>title = ''b'', description = None, completed = False, priority = 1\<rparr>
        (run
      [Post \<lparr>body_title = Some ''a'', body_description = None, body_completed = None, body_priority = None\<rparr>]
      empty_db)) = Inl OverflowError
   \<and> fst (PUT_item 9223372036854775808
        \<lparr>body_title = Some ''b'', body_description = None, body_completed = None, body_priority = None\<rparr>
        (run
      [Post \<lparr>body_title = Some ''a'', body_description = None, body_completed = None, body_priority = None\<rparr>]
      empty_db)) = Inl OverflowError
   \<and> status_code OverflowError = 500"
  by code_simp

text \<open>
  C8, as the code has it. In every state of the database, \<open>update_item\<close> with an
  identifier in the signed 64-bit range that no stored task has fails with the not-found
  error (status 404), and the table is as it was; the only call made on the session is
  the lookup.
\<close>

theorem update_item_unknown_id:
  assumes "int64 i" and "i \<notin> set (map item_id (rows s))"
  shows "fst (update_item i item s) = Inl (HTTPException 404 ''Item not found'')
    \<and> status_code (HTTPException 404 ''Item not found'') = 404
    \<and> rows (snd (update_item i item s)) = rows s
    \<and> trace (snd (update_item i item s)) = trace s @ [Query]"
  using assms(1) find_key_absent [OF assms(2)] by (simp add: update_item_missing)

theorem update_item_unknown_id_witness:
  "int64 7
   \<and> 7 \<notin> set (map item_id (rows \<lparr>rows = [new_Item \<lparr>title = ''buy milk'', description = None,
          completed = False, priority = 2\<rparr> 1], trace = []\<rparr>))
   \<and> fst (update_item 7 \<lparr>title = ''walk'', description = None, completed = True, priority = 3\<rparr>
        \<lparr>rows = [new_Item \<lparr>title = ''buy milk'', description = None,
          completed = False, priority = 2\<rparr> 1], trace = []\<rparr>)
     = Inl (HTTPException 404 ''Item not found'')
   \<and> rows (snd (update_item 7 \<lparr>title = ''walk'', description = None, completed = True, priority = 3\<rparr>
        \<lparr>rows = [new_Item \<lparr>title = ''buy milk'', description = None,
          completed = False, priority = 2\<rparr> 1], trace = []\<rparr>))
     = [new_Item \<lparr>title = ''buy milk'', description = None, completed = False, priority = 2\<rparr> 1]"
proof -
  let ?s = "\<lparr>rows = [new_Item \<lparr>title = ''buy milk'', description = None,
          completed = False, priority = 2\<rparr> 1], trace = []\<rparr>"
  have r: "int64 7" by (simp add: int64_def)
  have h: "7 \<notin> set (map item_id (rows ?s))"
    by (simp add: new_Item_def)
  from update_item_unknown_id [OF r h] r h show ?thesis
    by simp
qed

subsection \<open>Deleting a task\<close>

text \<open>
  The claim as worded is about every identifier that is absent. One that does not fit in
  64 bits cannot be bound to the lookup: \<open>DELETE /items/-9223372036854775809\<close> raises
  \<open>OverflowError\<close>, which no handler catches (status 500), where the claim says not
  found.
\<close>

theorem delete_absent_id_overflow_counterexample:
  "- 9223372036854775809 \<notin> set (map item_id (rows (run
      [Post \<lparr>body_title = Some ''a'', body_description = None, body_completed = None, body_priority = None\<rparr>]
      empty_db)))
   \<and> fst (delete_item (- 9223372036854775809) (run
      [Post \<lparr>body_title = Some ''a'', body_description = None, body_completed = None, body_priority = None\<rparr>]
      empty_db)) = Inl OverflowError
   \<and> status_code OverflowError = 500"
  by code_simp

text \<open>
  C9, as the code has it, for an identifier in the signed 64-bit range, as every stored
  key is. If a stored task has it, \<open>delete_item\<close> returns the confirmation message and
  leaves the table without the rows of that key, all other rows as they were and in
  their order; keys being distinct, that is exactly one row less. Fetching by the
  identifier afterwards fails with the not-found error (status 404). If no stored task
  has it, \<open>delete_item\<close> fails with the not-found error and the table is as it was.
\<close>

theorem delete_then_fetch:
  assumes "int64 i"
  shows "(i \<in> set (map item_id (rows s)) \<longrightarrow>
      fst (delete_item i s) = Inr [(''message'', ''Item deleted'')]
      \<and> rows (snd (delete_item i s)) = filter (\<lambda>r. item_id r \<noteq> i) (rows s)
      \<and> (distinct (map item_id (rows s)) \<longrightarrow>
           length (rows (snd (delete_item i s))) + 1 = length (rows s))
      \<and> fst (get_item i (snd (delete_item i s))) = Inl (HTTPException 404 ''Item not found''))
   \<and> (i \<notin> set (map item_id (rows s)) \<longrightarrow>
      fst (delete_item i s) = Inl (HTTPException 404 ''Item not found'')
      \<and> rows (snd (delete_item i s)) = rows s)
   \<and> status_code (HTTPException 404 ''Item not found'') = 404"
proof -
  have absent: "find (\<lambda>r. item_id r = i) (filter (\<lambda>r. item_id r \<noteq> i) (rows s)) = None"
    by (simp add: find_None_iff)
  have one: "length (filter (\<lambda>r. item_id r \<noteq> i) (rows s)) + 1 = length (rows s)"
    if d: "distinct (map item_id (rows s))" and m: "i \<in> set (map item_id (rows s))"
  proof -
    have "length (filter (\<lambda>r. item_id r = i) (rows s)) = 1"
      using d m by (rule length_filter_key)
    then show ?thesis
      using sum_length_filter_compl [of "\<lambda>r. item_id r = i" "rows s"] by simp
  qed
  show ?thesis
  proof (cases "find (\<lambda>r. item_id r = i) (rows s)")
    case None
    then have "i \<notin> set (map item_id (rows s))" by (auto simp: find_None_iff)
    with None assms show ?thesis by (simp add: delete_item_missing)
  next
    case (Some r)
    then have "i \<in> set (map item_id (rows s))"
      using find_key_item_id [OF Some] by force
    with Some absent one assms show ?thesis
      by (simp add: delete_item_done [OF Some] get_item_eq)
  qed
qed

theorem delete_then_fetch_witness:
  "int64 1
   \<and> 1 \<in> set (map item_id (rows
      \<lparr>rows = [\<lparr>title = ''a'', description = None, completed = False, priority = 1, item_id = 1\<rparr>,
               \<lparr>title = ''b'', description = None, completed = False, priority = 1, item_id = 2\<rparr>],
       trace = []\<rparr>))
   \<and> distinct (map item_id (rows
      \<lparr>rows = [\<lparr>title = ''a'', description = None, completed = False, priority = 1, item_id = 1\<rparr>,
               \<lparr>title = ''b'', description = None, completed = False, priority = 1, item_id = 2\<rparr>],
       trace = []\<rparr>))
   \<and> fst (delete_item 1
      \<lparr>rows = [\<lparr>title = ''a'', description = None, completed = False, priority = 1, item_id = 1\<rparr>,
               \<lparr>title = ''b'', description = None, completed = False, priority = 1, item_id = 2\<rparr>],
       trace = []\<rparr>) = Inr [(''message'', ''Item deleted'')]
   \<and> rows (snd (delete_item 1
      \<lparr>rows = [\<lparr>title = ''a'', description = None, completed = False, priority = 1, item_id = 1\<rparr>,
               \<lparr>title = ''b'', description = None, completed = False, priority = 1, item_id = 2\<rparr>],
       trace = []\<rparr>))
      = [\<lparr>title = ''b'', description = None, completed = False, priority = 1, item_id = 2\<rparr>]
   \<and> length (rows (snd (delete_item 1
      \<lparr>rows = [\<lparr>title = ''a'', description = None, completed = False, priority = 1, item_id = 1\<rparr>,
               \<lparr>title = ''b'', description = None, completed = False, priority = 1, item_id = 2\<rparr>],
       trace = []\<rparr>))) + 1 = 2
   \<and> fst (get_item 1 (snd (delete_item 1
      \<lparr>rows = [\<lparr>title = ''a'', description = None, completed = False, priority = 1, item_id = 1\<rparr>,
               \<lparr>title = ''b'', description = None, completed = False, priority = 1, item_id = 2\<rparr>],
       trace = []\<rparr>))) = Inl (HTTPException 404 ''Item not found'')
   \<and> int64 9
   \<and> 9 \<notin> set (map item_id (rows
      \<lparr>rows = [\<lparr>title = ''a'', description = None, completed = False, priority = 1, item_id = 1\<rparr>,
               \<lparr>title = ''b'', description = None, completed = False, priority = 1, item_id = 2\<rparr>],
       trace = []\<rparr>))
   \<and> fst (delete_item 9
      \<lparr>rows = [\<lparr>title = ''a'', description = None, completed = False, priority = 1, item_id = 1\<rparr>,
               \<lparr>title = ''b'', description = None, completed = False, priority = 1, item_id = 2\<rparr>],
       trace = []\<rparr>) = Inl (HTTPException 404 ''Item not found'')"
proof -
  let ?s = "\<lparr>rows = [\<lparr>title = ''a'', description = None, completed = False, priority = 1, item_id = 1\<rparr>,
               \<lparr>title = ''b'', description = None, completed = False, priority = 1, item_id = 2\<rparr>],
       trace = []\<rparr>"
  have r1: "int64 1" by (simp add: int64_def)
  have r9: "int64 9" by (simp add: int64_def)
  have h1: "1 \<in> set (map item_id (rows ?s))" by simp
  have d: "distinct (map item_id (rows ?s))" by simp
  have h9: "9 \<notin> set (map item_id (rows ?s))" by simp
  from delete_then_fetch [OF r1, of ?s] h1 d
  have a: "fst (delete_item 1 ?s) = Inr [(''message'', ''Item deleted'')]"
    and b: "rows (snd (delete_item 1 ?s)) = filter (\<lambda>r. item_id r \<noteq> 1) (rows ?s)"
    and l: "length (rows (snd (delete_item 1 ?s))) + 1 = length (rows ?s)"
    and c: "fst (get_item 1 (snd (delete_item 1 ?s))) = Inl (HTTPException 404 ''Item not found'')"
    by blast+
  from b have b': "rows (snd (delete_item 1 ?s))
      = [\<lparr>title = ''b'', description = None, completed = False, priority = 1, item_id = 2\<rparr>]"
    by simp
  from l have l': "length (rows (snd (delete_item 1 ?s))) + 1 = 2" by simp
  from delete_then_fetch [OF r9, of ?s] h9
  have e: "fst (delete_item 9 ?s) = Inl (HTTPException 404 ''Item not found'')"
    by blast
  from r1 h1 d a b' l' c r9 h9 e show ?thesis by (intro conjI)
qed

subsection \<open>The query parameters of a listing\<close>

text \<open>
  C10. Validation of the query parameters of a listing looks at \<open>sort_by\<close> and
  \<open>sort_order\<close> only: whatever integers \<open>skip\<close> and \<open>limit\<close> are, negative ones
  included, the request is accepted exactly when the two patterns match, \<open>skip\<close> and
  \<open>limit\<close> are handed to \<open>get_items\<close> as they came, and the query is made. Its
  result is never a validation error: it is a list when \<open>skip\<close> and \<open>limit\<close> fit in
  64 bits, and \<open>OverflowError\<close> (status 500) when one of them does not. When a pattern
  does not match, the request fails with a validation error and the state is untouched.
\<close>

theorem skip_limit_unchecked:
  "(validate_list_query \<lparr>q_skip = Some skip, q_limit = Some limit, q_sort_by = Some sort_by,
        q_sort_order = Some sort_order\<rparr> =
      (if sort_by_pattern sort_by \<and> sort_order_pattern sort_order
       then Inr (skip, limit, sort_by, sort_order) else Inl RequestValidationError))
   \<and> (sort_by_pattern sort_by \<and> sort_order_pattern sort_order \<longrightarrow>
        GET_items \<lparr>q_skip = Some skip, q_limit = Some limit, q_sort_by = Some sort_by,
          q_sort_order = Some sort_order\<rparr> s = get_items skip limit sort_by sort_order s
        \<and> fst (get_items skip limit sort_by sort_order s) \<noteq> Inl RequestValidationError
        \<and> (int64 skip \<and> int64 limit \<longrightarrow>
             (\<exists>items. fst (get_items skip limit sort_by sort_order s) = Inr items))
        \<and> (\<not> (int64 skip \<and> int64 limit) \<longrightarrow>
             fst (get_items skip limit sort_by sort_order s) = Inl OverflowError
             \<and> status_code OverflowError = 500)
        \<and> trace (snd (get_items skip limit sort_by sort_order s)) = trace s @ [Query])
   \<and> (\<not> (sort_by_pattern sort_by \<and> sort_order_pattern sort_order) \<longrightarrow>
        GET_items \<lparr>q_skip = Some skip, q_limit = Some limit, q_sort_by = Some sort_by,
          q_sort_order = Some sort_order\<rparr> s = (Inl RequestValidationError, s))"
proof -
  have "\<exists>c. getattr_Item sort_by = Some c" if "sort_by_pattern sort_by"
    using getattr_sort_by_pattern [OF that] by auto
  then show ?thesis
    by (auto simp: validate_list_query_def GET_items_def get_items_def Let_def
        split: if_splits)
qed

theorem skip_limit_unchecked_witness:
  "sort_by_pattern ''title'' \<and> sort_order_pattern ''desc''
   \<and> GET_items \<lparr>q_skip = Some (- 5), q_limit = Some (- 1), q_sort_by = Some ''title'',
        q_sort_order = Some ''desc''\<rparr> empty_db = get_items (- 5) (- 1) ''title'' ''desc'' empty_db
   \<and> int64 (- 5) \<and> int64 (- 1)
   \<and> (\<exists>items. fst (get_items (- 5) (- 1) ''title'' ''desc'' empty_db) = Inr items)
   \<and> trace (snd (get_items (- 5) (- 1) ''title'' ''desc'' empty_db)) = trace empty_db @ [Query]
   \<and> \<not> (int64 9223372036854775808 \<and> int64 10)
   \<and> GET_items \<lparr>q_skip = Some 9223372036854775808, q_limit = Some 10, q_sort_by = Some ''title'',
        q_sort_order = Some ''desc''\<rparr> empty_db
      = get_items 9223372036854775808 10 ''title'' ''desc'' empty_db
   \<and> fst (get_items 9223372036854775808 10 ''title'' ''desc'' empty_db) = Inl OverflowError
   \<and> \<not> (sort_by_pattern ''description'' \<and> sort_order_pattern ''asc'')
   \<and> GET_items \<lparr>q_skip = Some 0, q_limit = Some 10, q_sort_by = Some ''description'',
        q_sort_order = Some ''asc''\<rparr> empty_db = (Inl RequestValidationError, empty_db)"
proof -
  have h1: "sort_by_pattern ''title''" by (simp add: sort_by_pattern_def)
  have h2: "sort_order_pattern ''desc''" by (simp add: sort_order_pattern_def)
  have h3: "\<not> (sort_by_pattern ''description'' \<and> sort_order_pattern ''asc'')"
    by (simp add: sort_by_pattern_def)
  have r5: "int64 (- 5)" by (simp add: int64_def)
  have r1: "int64 (- 1)" by (simp add: int64_def)
  have big: "\<not> (int64 9223372036854775808 \<and> int64 10)" by (simp add: int64_def)
  from skip_limit_unchecked [of "- 5" "- 1" "''title''" "''desc''" empty_db] h1 h2 r5 r1
  have a: "GET_items \<lparr>q_skip = Some (- 5), q_limit = Some (- 1), q_sort_by = Some ''title'',
        q_sort_order = Some ''desc''\<rparr> empty_db = get_items (- 5) (- 1) ''title'' ''desc'' empty_db"
    and b: "\<exists>items. fst (get_items (- 5) (- 1) ''title'' ''desc'' empty_db) = Inr items"
    and t: "trace (snd (get_items (- 5) (- 1) ''title'' ''desc'' empty_db)) = trace empty_db @ [Query]"
    by blast+
  from skip_limit_unchecked [of 9223372036854775808 10 "''title''" "''desc''" empty_db] h1 h2 big
  have f: "GET_items \<lparr>q_skip = Some 9223372036854775808, q_limit = Some 10,
        q_sort_by = Some ''title'', q_sort_order = Some ''desc''\<rparr> empty_db
      = get_items 9223372036854775808 10 ''title'' ''desc'' empty_db"
    and g: "fst (get_items 9223372036854775808 10 ''title'' ''desc'' empty_db) = Inl OverflowError"
    by blast+
  from skip_limit_unchecked [of 0 10 "''description''" "''asc''" empty_db] h3
  have c: "GET_items \<lparr>q_skip = Some 0, q_limit = Some 10, q_sort_by = Some ''description'',
        q_sort_order = Some ''asc''\<rparr> empty_db = (Inl RequestValidationError, empty_db)"
    by blast
  from h1 h2 a r5 r1 b t big f g h3 c show ?thesis by (intro conjI)
qed

end
